theory Spec2Isabelle
  imports Complex_Main
begin

section \<open>Data model\<close>

text \<open>
  A face descriptor is the 128-component numpy vector produced by the external
  extractor; its components are modelled as real numbers (no rounding, no NaN).
  A bounding box is the tuple (top, right, bottom, left).  The extractor itself is
  an external library: an image is represented by what the extractor finds in it,
  the list of (box, descriptor) pairs in detection order.
\<close>

type_synonym encoding = "real list"
type_synonym box = "nat \<times> nat \<times> nat \<times> nat"
type_synonym image = "(box \<times> encoding) list"

text \<open>
  The Python exceptions that can escape the methods below.  Every
  \<open>mysql.connector.Error\<close> is caught inside \<open>DatabaseManager\<close> and turned into a
  return value, so it does not appear here.
\<close>

datatype exn = AttributeError | IndexError

text \<open>
  The MySQL server behind the connection, with the three tables of \<open>db_setup.py\<close>:
  \<open>users(id, name)\<close>, \<open>face_encodings(user_id, encoding)\<close> and
  \<open>attendance(user_id)\<close> (timestamps and the surrogate keys of the last two tables
  are left out).  \<open>assigned\<close> counts the AUTO_INCREMENT ids handed out so far for
  \<open>users\<close>, so the next id is its successor and never 0.  \<open>faults\<close> is the
  environment: for each coming round trip to the server, whether it raises
  \<open>mysql.connector.Error\<close>; when the list is used up the server answers normally.
  A round trip that raises leaves the tables as they were.
\<close>

record mysql =
  users :: "(nat \<times> string) list"
  face_encodings_tbl :: "(nat \<times> encoding) list"
  attendance :: "nat list"
  assigned :: nat
  faults :: "bool list"

definition server_call :: "mysql \<Rightarrow> bool \<times> mysql" where
  "server_call srv =
     (case faults srv of
        [] \<Rightarrow> (False, srv)
      | f # fs \<Rightarrow> (f, srv\<lparr>faults := fs\<rparr>))"

text \<open>A result row of the join in \<open>get_all_face_encodings\<close> (a dict with keys id, name, encoding).\<close>

record face_row =
  row_id :: nat
  row_name :: string
  row_encoding :: encoding

section \<open>db\_operations.py: DatabaseManager\<close>

text \<open>\<open>self.connection\<close> is \<open>None\<close> until \<open>connect\<close> succeeds.\<close>

record DatabaseManager =
  connection :: "mysql option"

definition connect :: "DatabaseManager \<Rightarrow> mysql \<Rightarrow> DatabaseManager" where
  "connect dbm srv =
     (case server_call srv of
        (True, srv') \<Rightarrow> dbm
      | (False, srv') \<Rightarrow> dbm\<lparr>connection := Some srv'\<rparr>)"

definition DatabaseManager_init :: "mysql \<Rightarrow> DatabaseManager" where
  "DatabaseManager_init srv = connect \<lparr>connection = None\<rparr> srv"

text \<open>
  \<open>self.connection.cursor()\<close> on a \<open>None\<close> connection raises \<open>AttributeError\<close>,
  which the handlers for \<open>mysql.connector.Error\<close> do not catch.
\<close>

definition add_user :: "DatabaseManager \<Rightarrow> string \<Rightarrow> (exn + nat option) \<times> DatabaseManager" where
  "add_user dbm name =
     (case connection dbm of
        None \<Rightarrow> (Inl AttributeError, dbm)
      | Some srv \<Rightarrow>
          (case server_call srv of
             (True, srv') \<Rightarrow> (Inr None, dbm\<lparr>connection := Some srv'\<rparr>)
           | (False, srv') \<Rightarrow>
               (let user_id = Suc (assigned srv')
                in (Inr (Some user_id),
                    dbm\<lparr>connection := Some (srv'\<lparr>users := users srv' @ [(user_id, name)],
                                                   assigned := user_id\<rparr>)\<rparr>))))"

definition add_face_encoding ::
  "DatabaseManager \<Rightarrow> nat \<Rightarrow> encoding \<Rightarrow> (exn + bool) \<times> DatabaseManager" where
  "add_face_encoding dbm user_id face_encoding =
     (case connection dbm of
        None \<Rightarrow> (Inl AttributeError, dbm)
      | Some srv \<Rightarrow>
          (case server_call srv of
             (True, srv') \<Rightarrow> (Inr False, dbm\<lparr>connection := Some srv'\<rparr>)
           | (False, srv') \<Rightarrow>
               (Inr True,
                dbm\<lparr>connection := Some (srv'\<lparr>face_encodings_tbl :=
                                                  face_encodings_tbl srv' @ [(user_id, face_encoding)]\<rparr>)\<rparr>)))"

text \<open>The inner join of \<open>users\<close> and \<open>face_encodings\<close> on the user id.\<close>

definition select_faces :: "mysql \<Rightarrow> face_row list" where
  "select_faces srv =
     concat (map (\<lambda>(uid, name).
               map (\<lambda>(fuid, enc). \<lparr>row_id = uid, row_name = name, row_encoding = enc\<rparr>)
                   (filter (\<lambda>(fuid, enc). fuid = uid) (face_encodings_tbl srv)))
             (users srv))"

definition get_all_face_encodings ::
  "DatabaseManager \<Rightarrow> (exn + face_row list) \<times> DatabaseManager" where
  "get_all_face_encodings dbm =
     (case connection dbm of
        None \<Rightarrow> (Inl AttributeError, dbm)
      | Some srv \<Rightarrow>
          (case server_call srv of
             (True, srv') \<Rightarrow> (Inr [], dbm\<lparr>connection := Some srv'\<rparr>)
           | (False, srv') \<Rightarrow> (Inr (select_faces srv'), dbm\<lparr>connection := Some srv'\<rparr>)))"

definition record_attendance :: "DatabaseManager \<Rightarrow> nat \<Rightarrow> (exn + bool) \<times> DatabaseManager" where
  "record_attendance dbm user_id =
     (case connection dbm of
        None \<Rightarrow> (Inl AttributeError, dbm)
      | Some srv \<Rightarrow>
          (case server_call srv of
             (True, srv') \<Rightarrow> (Inr False, dbm\<lparr>connection := Some srv'\<rparr>)
           | (False, srv') \<Rightarrow>
               (Inr True,
                dbm\<lparr>connection := Some (srv'\<lparr>attendance := attendance srv' @ [user_id]\<rparr>)\<rparr>)))"

section \<open>The face\_recognition and numpy calls\<close>

text \<open>
  \<open>face_recognition.face_distance\<close> gives, for each known descriptor, the Euclidean
  norm of its difference with the probe (an empty array for an empty gallery);
  \<open>compare_faces\<close> is \<open>face_distance \<le> tolerance\<close>, componentwise;
  \<open>np.argmin\<close> gives the index of the first occurrence of the minimum.  The
  extractor only produces descriptors of one length; vectors of unequal length,
  on which numpy raises, are outside the model.
\<close>

definition euclidean :: "encoding \<Rightarrow> encoding \<Rightarrow> real" where
  "euclidean a b = sqrt (\<Sum>(x, y) \<leftarrow> zip a b. (x - y)\<^sup>2)"

definition face_distance :: "encoding list \<Rightarrow> encoding \<Rightarrow> real list" where
  "face_distance face_encodings face_to_compare =
     map (\<lambda>known. euclidean known face_to_compare) face_encodings"

definition compare_faces :: "encoding list \<Rightarrow> encoding \<Rightarrow> real \<Rightarrow> bool list" where
  "compare_faces known_encodings face_encoding_to_check tolerance =
     map (\<lambda>d. d \<le> tolerance) (face_distance known_encodings face_encoding_to_check)"

text \<open>\<open>argmin\<close> is only called on a non-empty array (numpy raises on an empty one).\<close>

fun argmin :: "real list \<Rightarrow> nat" where
  "argmin [] = 0"
| "argmin [d] = 0"
| "argmin (d # e # ds) =
     (let j = argmin (e # ds) in if d \<le> (e # ds) ! j then 0 else Suc j)"

definition face_locations :: "image \<Rightarrow> box list" where
  "face_locations img = map fst img"

definition face_encodings :: "image \<Rightarrow> box list \<Rightarrow> encoding list" where
  "face_encodings img locations = map snd (filter (\<lambda>(l, e). l \<in> set locations) img)"

text \<open>Python list indexing with a non-negative index.\<close>

definition index :: "'a list \<Rightarrow> nat \<Rightarrow> exn + 'a" where
  "index xs i = (if i < length xs then Inr (xs ! i) else Inl IndexError)"

section \<open>face\_recognition\_module.py: FaceRecognitionSystem\<close>

record FaceRecognitionSystem =
  db :: DatabaseManager
  known_face_encodings :: "encoding list"
  known_face_names :: "string list"
  known_face_ids :: "nat list"

definition load_known_faces ::
  "FaceRecognitionSystem \<Rightarrow> (exn + unit) \<times> FaceRecognitionSystem" where
  "load_known_faces sys =
     (case get_all_face_encodings (db sys) of
        (Inl e, dbm) \<Rightarrow> (Inl e, sys\<lparr>db := dbm\<rparr>)
      | (Inr face_data, dbm) \<Rightarrow>
          (Inr (), sys\<lparr>db := dbm,
                       known_face_encodings := map row_encoding face_data,
                       known_face_names := map row_name face_data,
                       known_face_ids := map row_id face_data\<rparr>))"

text \<open>The constructor: an exception leaves no object behind.\<close>

definition FaceRecognitionSystem_init :: "mysql \<Rightarrow> exn + FaceRecognitionSystem" where
  "FaceRecognitionSystem_init srv =
     (case load_known_faces \<lparr>db = DatabaseManager_init srv,
                             known_face_encodings = [],
                             known_face_names = [],
                             known_face_ids = []\<rparr> of
        (Inl e, sys) \<Rightarrow> Inl e
      | (Inr u, sys) \<Rightarrow> Inr sys)"

definition register_new_face ::
  "FaceRecognitionSystem \<Rightarrow> string \<Rightarrow> image \<Rightarrow> (exn + bool \<times> string) \<times> FaceRecognitionSystem" where
  "register_new_face sys name face_image =
     (let locations = face_locations face_image in
      if locations = [] then (Inr (False, ''No face detected in the image''), sys)
      else if length locations > 1 then
        (Inr (False, ''Multiple faces detected. Please provide an image with only one face''), sys)
      else
        (case index (face_encodings face_image locations) 0 of
           Inl e \<Rightarrow> (Inl e, sys)
         | Inr face_encoding \<Rightarrow>
             (case add_user (db sys) name of
                (Inl e, dbm) \<Rightarrow> (Inl e, sys\<lparr>db := dbm\<rparr>)
              | (Inr None, dbm) \<Rightarrow> (Inr (False, ''Failed to register user''), sys\<lparr>db := dbm\<rparr>)
              | (Inr (Some user_id), dbm) \<Rightarrow>
                  if user_id \<noteq> 0 then
                    (case add_face_encoding dbm user_id face_encoding of
                       (Inl e, dbm') \<Rightarrow> (Inl e, sys\<lparr>db := dbm'\<rparr>)
                     | (Inr success, dbm') \<Rightarrow>
                         if success then
                           (Inr (True, ''User '' @ name @ '' registered successfully''),
                            sys\<lparr>db := dbm',
                                known_face_encodings := known_face_encodings sys @ [face_encoding],
                                known_face_names := known_face_names sys @ [name],
                                known_face_ids := known_face_ids sys @ [user_id]\<rparr>)
                         else (Inr (False, ''Failed to register user''), sys\<lparr>db := dbm'\<rparr>))
                  else (Inr (False, ''Failed to register user''), sys\<lparr>db := dbm\<rparr>))))"

text \<open>The body of the loop over the descriptors of a frame.\<close>

definition recognize_face ::
  "FaceRecognitionSystem \<Rightarrow> encoding \<Rightarrow> (exn + string \<times> nat option) \<times> FaceRecognitionSystem" where
  "recognize_face sys face_encoding =
     (let matches = compare_faces (known_face_encodings sys) face_encoding (6 / 10);
          face_distances = face_distance (known_face_encodings sys) face_encoding
      in if length face_distances > 0 then
           (let best_match_index = argmin face_distances in
            case index matches best_match_index of
              Inl e \<Rightarrow> (Inl e, sys)
            | Inr m \<Rightarrow>
                if m then
                  (case index (known_face_names sys) best_match_index of
                     Inl e \<Rightarrow> (Inl e, sys)
                   | Inr name \<Rightarrow>
                       (case index (known_face_ids sys) best_match_index of
                          Inl e \<Rightarrow> (Inl e, sys)
                        | Inr user_id \<Rightarrow>
                            (case record_attendance (db sys) user_id of
                               (Inl e, dbm) \<Rightarrow> (Inl e, sys\<lparr>db := dbm\<rparr>)
                             | (Inr ok, dbm) \<Rightarrow> (Inr (name, Some user_id), sys\<lparr>db := dbm\<rparr>))))
                else (Inr (''Unknown'', None), sys))
         else (Inr (''Unknown'', None), sys))"

fun recognize_loop ::
  "FaceRecognitionSystem \<Rightarrow> encoding list \<Rightarrow> string list \<Rightarrow> nat option list \<Rightarrow>
     (exn + string list \<times> nat option list) \<times> FaceRecognitionSystem" where
  "recognize_loop sys [] face_names recognized_ids = (Inr (face_names, recognized_ids), sys)"
| "recognize_loop sys (face_encoding # rest) face_names recognized_ids =
     (case recognize_face sys face_encoding of
        (Inl e, sys') \<Rightarrow> (Inl e, sys')
      | (Inr (name, user_id), sys') \<Rightarrow>
          recognize_loop sys' rest (face_names @ [name]) (recognized_ids @ [user_id]))"

definition recognize_faces ::
  "FaceRecognitionSystem \<Rightarrow> image \<Rightarrow>
     (exn + box list \<times> string list \<times> nat option list) \<times> FaceRecognitionSystem" where
  "recognize_faces sys frame =
     (let locations = face_locations frame;
          encodings = face_encodings frame locations
      in case recognize_loop sys encodings [] [] of
           (Inl e, sys') \<Rightarrow> (Inl e, sys')
         | (Inr (face_names, recognized_ids), sys') \<Rightarrow>
             (Inr (locations, face_names, recognized_ids), sys'))"

section \<open>app.py: one iteration of the recognition loop of home\_page\<close>

text \<open>
  \<open>confidence_threshold\<close> is the value of the slider "Recognition Confidence"
  (0.0 to 1.0, initially 0.6); the loop calls \<open>recognize_faces(frame)\<close> and
  does not pass it on.
\<close>

definition home_page_frame ::
  "real \<Rightarrow> FaceRecognitionSystem \<Rightarrow> image \<Rightarrow>
     (exn + box list \<times> string list \<times> nat option list) \<times> FaceRecognitionSystem" where
  "home_page_frame confidence_threshold face_system frame = recognize_faces face_system frame"

section \<open>Observations on a system state\<close>

text \<open>
  The three gallery lists are meant to be read in parallel, and every method of
  \<open>DatabaseManager\<close> dereferences \<open>self.connection\<close>.  The attendance table is
  seen through the connection.
\<close>

definition parallel_lists :: "FaceRecognitionSystem \<Rightarrow> bool" where
  "parallel_lists sys \<longleftrightarrow>
     length (known_face_encodings sys) = length (known_face_names sys) \<and>
     length (known_face_names sys) = length (known_face_ids sys)"

definition has_connection :: "FaceRecognitionSystem \<Rightarrow> bool" where
  "has_connection sys \<longleftrightarrow> connection (db sys) \<noteq> None"

definition gallery :: "FaceRecognitionSystem \<Rightarrow> encoding list \<times> string list \<times> nat list" where
  "gallery sys = (known_face_encodings sys, known_face_names sys, known_face_ids sys)"

definition attendance_log :: "FaceRecognitionSystem \<Rightarrow> nat list" where
  "attendance_log sys = (case connection (db sys) of None \<Rightarrow> [] | Some srv \<Rightarrow> attendance srv)"


section \<open>Auxiliary facts\<close>

subsection \<open>The library calls\<close>

lemma argmin_less: "ds \<noteq> [] \<Longrightarrow> argmin ds < length ds"
  by (induction ds rule: argmin.induct) (auto simp: Let_def)



lemma euclidean_single: "euclidean [a] [b] = \<bar>a - b\<bar>"
  by (simp add: euclidean_def)

lemma length_face_distance: "length (face_distance known e) = length known"
  by (simp add: face_distance_def)

lemma argmin_face_distance_less:
  assumes "known \<noteq> []"
  shows "argmin (face_distance known e) < length known"
proof -
  from assms have "face_distance known e \<noteq> []" by (simp add: face_distance_def)
  then have "argmin (face_distance known e) < length (face_distance known e)"
    by (rule argmin_less)
  then show ?thesis by (simp add: length_face_distance)
qed

lemma nth_face_distance:
  "j < length known \<Longrightarrow> face_distance known e ! j = euclidean (known ! j) e"
  by (simp add: face_distance_def)

lemma length_compare_faces: "length (compare_faces known e t) = length known"
  by (simp add: compare_faces_def face_distance_def)

lemma nth_compare_faces:
  "i < length known \<Longrightarrow> compare_faces known e t ! i \<longleftrightarrow> face_distance known e ! i \<le> t"
  by (simp add: compare_faces_def face_distance_def)

lemma face_encodings_all: "face_encodings img (face_locations img) = map snd img"
proof -
  have "filter (\<lambda>(l, e). l \<in> set (map fst img)) img = img"
    by (rule filter_True) force
  then show ?thesis by (simp add: face_encodings_def face_locations_def)
qed

subsection \<open>The store\<close>

lemma server_call_tables:
  assumes "server_call srv = (f, srv')"
  shows "users srv' = users srv" and "face_encodings_tbl srv' = face_encodings_tbl srv"
    and "attendance srv' = attendance srv" and "assigned srv' = assigned srv"
  using assms by (auto simp: server_call_def split: list.splits)

lemma record_attendance_connected:
  assumes "connection dbm = Some srv"
  shows "\<exists>ok srv'. record_attendance dbm u = (Inr ok, dbm\<lparr>connection := Some srv'\<rparr>)"
  using assms by (auto simp: record_attendance_def split: prod.splits bool.splits)

lemma record_attendance_has_connection:
  "connection dbm \<noteq> None \<Longrightarrow> connection (snd (record_attendance dbm u)) \<noteq> None"
  by (auto simp: record_attendance_def split: prod.splits bool.splits)

lemma add_user_positive:
  "add_user dbm name = (Inr (Some user_id), dbm') \<Longrightarrow> 0 < user_id"
  by (auto simp: add_user_def Let_def split: option.splits prod.splits bool.splits)

lemma add_user_row:
  assumes "add_user dbm name = (Inr (Some user_id), dbm')"
  shows "\<exists>srv'. connection dbm' = Some srv' \<and> (user_id, name) \<in> set (users srv')"
  using assms
  by (auto simp: add_user_def Let_def split: option.splits prod.splits bool.splits)

lemma add_face_encoding_rows:
  assumes "add_face_encoding dbm user_id enc = (Inr True, dbm')"
    and "connection dbm = Some srv"
  shows "\<exists>srv'. connection dbm' = Some srv' \<and> set (users srv) \<subseteq> set (users srv')
           \<and> (user_id, enc) \<in> set (face_encodings_tbl srv')"
  using assms
  by (auto simp: add_face_encoding_def split: option.splits prod.splits bool.splits
      dest: server_call_tables(1))

lemma add_user_has_connection:
  "connection dbm \<noteq> None \<Longrightarrow> connection (snd (add_user dbm name)) \<noteq> None"
  by (auto simp: add_user_def Let_def split: prod.splits bool.splits)

lemma add_face_encoding_has_connection:
  "connection dbm \<noteq> None \<Longrightarrow> connection (snd (add_face_encoding dbm u enc)) \<noteq> None"
  by (auto simp: add_face_encoding_def split: prod.splits bool.splits)

subsection \<open>The loop body of recognize\_faces\<close>

lemma recognize_face_eq:
  assumes "parallel_lists sys" and "has_connection sys"
  shows "recognize_face sys e =
     (let ds = face_distance (known_face_encodings sys) e; i = argmin ds
      in if known_face_encodings sys \<noteq> [] \<and> ds ! i \<le> 6 / 10
         then (Inr (known_face_names sys ! i, Some (known_face_ids sys ! i)),
               sys\<lparr>db := snd (record_attendance (db sys) (known_face_ids sys ! i))\<rparr>)
         else (Inr (''Unknown'', None), sys))"
proof (cases "known_face_encodings sys = []")
  case True
  then show ?thesis by (simp add: recognize_face_def face_distance_def Let_def)
next
  case False
  let ?ds = "face_distance (known_face_encodings sys) e"
  let ?i = "argmin ?ds"
  from False have ne: "?ds \<noteq> []" by (simp add: face_distance_def)
  then have i: "?i < length (known_face_encodings sys)"
    using argmin_less [of ?ds] by (simp add: length_face_distance)
  with assms(1) have i2: "?i < length (known_face_names sys)" "?i < length (known_face_ids sys)"
    by (simp_all add: parallel_lists_def)
  from assms(2) obtain srv where "connection (db sys) = Some srv"
    by (auto simp: has_connection_def)
  then obtain ok srv' where ra:
    "record_attendance (db sys) (known_face_ids sys ! ?i) = (Inr ok, (db sys)\<lparr>connection := Some srv'\<rparr>)"
    using record_attendance_connected by blast
  show ?thesis
    using False ne i i2 ra
    by (simp add: recognize_face_def Let_def index_def length_compare_faces
        length_face_distance nth_compare_faces)
qed

lemma recognize_face_far:
  assumes "\<forall>k \<in> set (known_face_encodings sys). 6 / 10 < euclidean k e"
  shows "recognize_face sys e = (Inr (''Unknown'', None), sys)"
proof (cases "known_face_encodings sys = []")
  case True
  then show ?thesis by (simp add: recognize_face_def face_distance_def Let_def)
next
  case False
  let ?known = "known_face_encodings sys"
  let ?i = "argmin (face_distance ?known e)"
  from False have i: "?i < length ?known" by (rule argmin_face_distance_less)
  then have "?known ! ?i \<in> set ?known" by simp
  with assms have "6 / 10 < euclidean (?known ! ?i) e" by blast
  then have "\<not> face_distance ?known e ! ?i \<le> 6 / 10"
    using i by (simp add: nth_face_distance)
  then have "\<not> compare_faces ?known e (6 / 10) ! ?i"
    using i by (simp add: nth_compare_faces)
  then show ?thesis
    using i by (simp add: recognize_face_def Let_def index_def length_compare_faces
        length_face_distance)
qed

lemma recognize_face_gallery: "gallery (snd (recognize_face sys e)) = gallery sys"
  by (auto simp: recognize_face_def Let_def gallery_def split: sum.splits prod.splits)

lemma recognize_face_has_connection:
  assumes "parallel_lists sys" and "has_connection sys"
  shows "has_connection (snd (recognize_face sys e))"
proof -
  have "has_connection (sys\<lparr>db := snd (record_attendance (db sys) u)\<rparr>)" for u
    using assms(2) by (simp add: has_connection_def record_attendance_has_connection)
  with assms(2) show ?thesis
    by (simp add: recognize_face_eq [OF assms] Let_def)
qed

lemma recognize_face_no_IndexError:
  assumes "parallel_lists sys"
  shows "fst (recognize_face sys e) \<noteq> Inl IndexError"
proof (cases "known_face_encodings sys = []")
  case True
  then show ?thesis by (simp add: recognize_face_def face_distance_def Let_def)
next
  case False
  then have i: "argmin (face_distance (known_face_encodings sys) e) < length (known_face_encodings sys)"
    by (rule argmin_face_distance_less)
  with assms show ?thesis
    by (auto simp: recognize_face_def Let_def index_def parallel_lists_def length_compare_faces
        record_attendance_def split: prod.splits sum.splits option.splits bool.splits)
qed

lemma recognize_face_label:
  assumes "parallel_lists sys" and "has_connection sys" and "gallery sys = (encs, names, ids)"
  shows "\<exists>name uid sys'. recognize_face sys e = (Inr (name, uid), sys')
           \<and> ((uid = None \<and> name = ''Unknown'') \<or>
               (\<exists>j < length encs. name = names ! j \<and> uid = Some (ids ! j)))"
proof -
  let ?i = "argmin (face_distance (known_face_encodings sys) e)"
  from assms(3) have g: "known_face_encodings sys = encs" "known_face_names sys = names"
    "known_face_ids sys = ids"
    by (simp_all add: gallery_def)
  show ?thesis
  proof (cases "known_face_encodings sys \<noteq> [] \<and>
      face_distance (known_face_encodings sys) e ! ?i \<le> 6 / 10")
    case True
    then have "?i < length encs"
      using argmin_face_distance_less [of "known_face_encodings sys" e] by (simp add: g)
    moreover from True have "recognize_face sys e =
        (Inr (names ! ?i, Some (ids ! ?i)),
         sys\<lparr>db := snd (record_attendance (db sys) (known_face_ids sys ! ?i))\<rparr>)"
      by (simp add: recognize_face_eq [OF assms(1,2)] Let_def g)
    ultimately show ?thesis by blast
  next
    case False
    then have "recognize_face sys e = (Inr (''Unknown'', None), sys)"
      by (simp add: recognize_face_eq [OF assms(1,2)] Let_def)
    then show ?thesis by simp
  qed
qed

lemma recognize_face_same_gallery:
  assumes "parallel_lists sys" and "has_connection sys"
    and "parallel_lists sys0" and "has_connection sys0"
    and "gallery sys = gallery sys0"
  shows "fst (recognize_face sys e) = fst (recognize_face sys0 e)"
proof -
  from assms(5) have "known_face_encodings sys = known_face_encodings sys0"
    "known_face_names sys = known_face_names sys0" "known_face_ids sys = known_face_ids sys0"
    by (simp_all add: gallery_def)
  then show ?thesis
    by (simp add: recognize_face_eq [OF assms(1,2)] recognize_face_eq [OF assms(3,4)] Let_def)
qed

subsection \<open>The loop and the frame\<close>

lemma recognize_loop_far:
  assumes "\<forall>e \<in> set es. \<forall>k \<in> set (known_face_encodings sys). 6 / 10 < euclidean k e"
  shows "recognize_loop sys es face_names recognized_ids =
     (Inr (face_names @ replicate (length es) ''Unknown'',
           recognized_ids @ replicate (length es) None), sys)"
  using assms
proof (induction es arbitrary: face_names recognized_ids)
  case Nil
  show ?case by simp
next
  case (Cons e es)
  then have "recognize_face sys e = (Inr (''Unknown'', None), sys)"
    by (simp add: recognize_face_far)
  with Cons show ?case by (simp add: replicate_app_Cons_same)
qed

lemma recognize_loop_gallery:
  "gallery (snd (recognize_loop sys es face_names recognized_ids)) = gallery sys"
proof (induction es arbitrary: sys face_names recognized_ids)
  case Nil
  show ?case by simp
next
  case (Cons e es)
  show ?case
  proof (cases "recognize_face sys e")
    case (Pair r sys')
    with recognize_face_gallery [of sys e] have g: "gallery sys' = gallery sys" by simp
    show ?thesis
    proof (cases r)
      case (Inl x)
      with Pair g show ?thesis by simp
    next
      case (Inr p)
      with Pair g Cons.IH [of sys'] show ?thesis by (cases p) simp
    qed
  qed
qed

lemma recognize_faces_gallery: "gallery (snd (recognize_faces sys frame)) = gallery sys"
proof -
  have "gallery (snd (recognize_loop sys (face_encodings frame (face_locations frame)) [] [])) =
      gallery sys"
    by (rule recognize_loop_gallery)
  then show ?thesis
    by (auto simp: recognize_faces_def Let_def split: prod.splits sum.splits)
qed

lemma parallel_lists_gallery: "gallery sys' = gallery sys \<Longrightarrow> parallel_lists sys' = parallel_lists sys"
  by (simp add: gallery_def parallel_lists_def)

lemma recognize_loop_labels:
  assumes "parallel_lists sys" and "has_connection sys" and "gallery sys = (encs, names, ids)"
  shows "\<exists>ns us sys'.
           recognize_loop sys es face_names recognized_ids =
             (Inr (face_names @ ns, recognized_ids @ us), sys')
         \<and> has_connection sys'
         \<and> length ns = length es
         \<and> list_all2 (\<lambda>name uid. (uid = None \<and> name = ''Unknown'') \<or>
               (\<exists>j < length encs. name = names ! j \<and> uid = Some (ids ! j))) ns us"
  using assms
proof (induction es arbitrary: sys face_names recognized_ids)
  case Nil
  then show ?case by simp
next
  case (Cons e es)
  from recognize_face_label [OF Cons.prems] obtain name uid sys1 where
    step: "recognize_face sys e = (Inr (name, uid), sys1)" and
    lab: "(uid = None \<and> name = ''Unknown'') \<or>
               (\<exists>j < length encs. name = names ! j \<and> uid = Some (ids ! j))"
    by blast
  from step recognize_face_gallery [of sys e] Cons.prems(3)
  have g: "gallery sys1 = (encs, names, ids)" by simp
  from step recognize_face_gallery [of sys e] Cons.prems(1) parallel_lists_gallery [of sys1 sys]
  have p1: "parallel_lists sys1" by simp
  from step recognize_face_has_connection [OF Cons.prems(1,2), of e] have c1: "has_connection sys1"
    by simp
  from Cons.IH [OF p1 c1 g, of "face_names @ [name]" "recognized_ids @ [uid]"]
  obtain ns us sys' where
    rest: "recognize_loop sys1 es (face_names @ [name]) (recognized_ids @ [uid]) =
             (Inr ((face_names @ [name]) @ ns, (recognized_ids @ [uid]) @ us), sys')"
    and conn: "has_connection sys'"
    and len: "length ns = length es"
    and all: "list_all2 (\<lambda>name uid. (uid = None \<and> name = ''Unknown'') \<or>
               (\<exists>j < length encs. name = names ! j \<and> uid = Some (ids ! j))) ns us"
    by (elim exE conjE)
  have "recognize_loop sys (e # es) face_names recognized_ids =
          (Inr (face_names @ (name # ns), recognized_ids @ (uid # us)), sys')"
    using step rest by simp
  moreover have "length (name # ns) = length (e # es)" using len by simp
  moreover have "list_all2 (\<lambda>name uid. (uid = None \<and> name = ''Unknown'') \<or>
               (\<exists>j < length encs. name = names ! j \<and> uid = Some (ids ! j)))
               (name # ns) (uid # us)"
    using lab all by simp
  ultimately show ?case using conn by (intro exI conjI)
qed

lemma recognize_loop_per_face:
  assumes "parallel_lists sys" and "has_connection sys"
    and "parallel_lists sys0" and "has_connection sys0"
    and "gallery sys = gallery sys0"
  shows "\<exists>sys'. recognize_loop sys es face_names recognized_ids =
           (Inr (face_names @ map (\<lambda>e. fst (projr (fst (recognize_face sys0 e)))) es,
                 recognized_ids @ map (\<lambda>e. snd (projr (fst (recognize_face sys0 e)))) es), sys')"
  using assms(1,2,5)
proof (induction es arbitrary: sys face_names recognized_ids)
  case Nil
  show ?case by simp
next
  case (Cons e es)
  have g: "gallery sys = (known_face_encodings sys, known_face_names sys, known_face_ids sys)"
    by (simp add: gallery_def)
  from recognize_face_label [OF Cons.prems(1,2) g] obtain name uid sys1 where
    step: "recognize_face sys e = (Inr (name, uid), sys1)" by blast
  from recognize_face_same_gallery [OF Cons.prems(1,2) assms(3,4) Cons.prems(3), of e] step
  have lab: "fst (recognize_face sys0 e) = Inr (name, uid)" by simp
  from step recognize_face_gallery [of sys e] Cons.prems(3)
  have g1: "gallery sys1 = gallery sys0" by simp
  from step recognize_face_gallery [of sys e] Cons.prems(1) parallel_lists_gallery [of sys1 sys]
  have p1: "parallel_lists sys1" by simp
  from step recognize_face_has_connection [OF Cons.prems(1,2), of e] have c1: "has_connection sys1"
    by simp
  from Cons.IH [OF p1 c1 g1, of "face_names @ [name]" "recognized_ids @ [uid]"]
  obtain sys' where
    "recognize_loop sys1 es (face_names @ [name]) (recognized_ids @ [uid]) =
       (Inr ((face_names @ [name]) @ map (\<lambda>e. fst (projr (fst (recognize_face sys0 e)))) es,
             (recognized_ids @ [uid]) @ map (\<lambda>e. snd (projr (fst (recognize_face sys0 e)))) es),
        sys')"
    by (elim exE)
  with step lab show ?case by simp
qed

lemma recognize_faces_per_face:
  assumes "parallel_lists sys" and "has_connection sys"
  shows "\<exists>sys'. recognize_faces sys frame =
           (Inr (face_locations frame,
                 map (\<lambda>(l, e). fst (projr (fst (recognize_face sys e)))) frame,
                 map (\<lambda>(l, e). snd (projr (fst (recognize_face sys e)))) frame), sys')"
proof -
  from recognize_loop_per_face [OF assms assms refl, of "map snd frame" "[]" "[]"]
  obtain sys' where "recognize_loop sys (map snd frame) [] [] =
           (Inr (map (\<lambda>e. fst (projr (fst (recognize_face sys e)))) (map snd frame),
                 map (\<lambda>e. snd (projr (fst (recognize_face sys e)))) (map snd frame)), sys')"
    by auto
  then have "recognize_faces sys frame =
           (Inr (face_locations frame,
                 map (\<lambda>(l, e). fst (projr (fst (recognize_face sys e)))) frame,
                 map (\<lambda>(l, e). snd (projr (fst (recognize_face sys e)))) frame), sys')"
    by (simp add: recognize_faces_def face_encodings_all Let_def case_prod_unfold comp_def)
  then show ?thesis ..
qed

lemma recognize_faces_nth:
  assumes "parallel_lists sys" and "has_connection sys" and "k < length frame"
    and "fst (recognize_face sys (snd (frame ! k))) = Inr (name, uid)"
  shows "\<exists>names ids sys'. recognize_faces sys frame = (Inr (face_locations frame, names, ids), sys')
           \<and> names ! k = name \<and> ids ! k = uid"
proof -
  from recognize_faces_per_face [OF assms(1,2), of frame] obtain sys' where
    "recognize_faces sys frame =
           (Inr (face_locations frame,
                 map (\<lambda>(l, e). fst (projr (fst (recognize_face sys e)))) frame,
                 map (\<lambda>(l, e). snd (projr (fst (recognize_face sys e)))) frame), sys')" ..
  moreover have "map (\<lambda>(l, e). fst (projr (fst (recognize_face sys e)))) frame ! k = name"
    using assms(3,4) by (simp add: case_prod_unfold)
  moreover have "map (\<lambda>(l, e). snd (projr (fst (recognize_face sys e)))) frame ! k = uid"
    using assms(3,4) by (simp add: case_prod_unfold)
  ultimately show ?thesis by blast
qed

subsection \<open>The attendance table after recognition\<close>








subsection \<open>Construction, loading and enrollment\<close>

text \<open>
  A constructed system has a connection and parallel gallery lists, and every
  method keeps both: the constructor raises when \<open>connect\<close> failed, so no object
  with \<open>connection = None\<close> is ever handed out.
\<close>

lemma init_parallel: "FaceRecognitionSystem_init srv = Inr sys \<Longrightarrow> parallel_lists sys"
  by (auto simp: FaceRecognitionSystem_init_def load_known_faces_def parallel_lists_def
      split: prod.splits sum.splits)

lemma init_has_connection: "FaceRecognitionSystem_init srv = Inr sys \<Longrightarrow> has_connection sys"
  by (auto simp: FaceRecognitionSystem_init_def load_known_faces_def has_connection_def
      get_all_face_encodings_def split: prod.splits sum.splits option.splits bool.splits)

lemma load_known_faces_parallel:
  "parallel_lists sys \<or> fst (load_known_faces sys) = Inr () \<Longrightarrow>
     parallel_lists (snd (load_known_faces sys))"
  by (auto simp: load_known_faces_def parallel_lists_def split: prod.splits sum.splits)

lemma load_has_connection:
  "has_connection sys \<Longrightarrow> has_connection (snd (load_known_faces sys))"
  by (auto simp: load_known_faces_def has_connection_def get_all_face_encodings_def
      split: prod.splits sum.splits option.splits bool.splits)

lemma register_parallel:
  "parallel_lists sys \<Longrightarrow> parallel_lists (snd (register_new_face sys name face_image))"
  by (auto simp: register_new_face_def parallel_lists_def Let_def
      split: prod.splits sum.splits option.splits)

lemma register_has_connection:
  assumes "has_connection sys"
  shows "has_connection (snd (register_new_face sys name face_image))"
proof -
  from assms have u: "connection (snd (add_user (db sys) name)) \<noteq> None"
    by (simp add: has_connection_def add_user_has_connection)
  have f: "connection (snd (add_face_encoding dbm uid enc)) \<noteq> None"
    if "add_user (db sys) name = (r, dbm)" for r dbm uid enc
    using u that by (simp add: add_face_encoding_has_connection)
  have u': "\<exists>srv. connection dbm = Some srv" if "add_user (db sys) name = (r, dbm)" for r dbm
    using u that by simp
  have f': "\<exists>srv. connection dbm' = Some srv"
    if "add_user (db sys) name = (r, dbm)" "add_face_encoding dbm uid enc = (r', dbm')"
    for r dbm uid enc r' dbm'
    using f [OF that(1), of uid enc] that(2) by simp
  from assms show ?thesis
    by (auto simp: register_new_face_def has_connection_def Let_def
        split: prod.splits sum.splits option.splits dest: u' f')
qed

lemma recognize_faces_has_connection:
  assumes "parallel_lists sys" and "has_connection sys"
  shows "has_connection (snd (recognize_faces sys frame))"
proof -
  have g: "gallery sys = (known_face_encodings sys, known_face_names sys, known_face_ids sys)"
    by (simp add: gallery_def)
  from recognize_loop_labels [OF assms g, of "face_encodings frame (face_locations frame)" "[]" "[]"]
  show ?thesis by (auto simp: recognize_faces_def Let_def)
qed

lemma register_one_face_cases:
  "register_new_face sys name [(loc, enc)] =
     (case add_user (db sys) name of
        (Inl e, dbm) \<Rightarrow> (Inl e, sys\<lparr>db := dbm\<rparr>)
      | (Inr None, dbm) \<Rightarrow> (Inr (False, ''Failed to register user''), sys\<lparr>db := dbm\<rparr>)
      | (Inr (Some user_id), dbm) \<Rightarrow>
          (case add_face_encoding dbm user_id enc of
             (Inl e, dbm') \<Rightarrow> (Inl e, sys\<lparr>db := dbm'\<rparr>)
           | (Inr True, dbm') \<Rightarrow>
               (Inr (True, ''User '' @ name @ '' registered successfully''),
                sys\<lparr>db := dbm',
                    known_face_encodings := known_face_encodings sys @ [enc],
                    known_face_names := known_face_names sys @ [name],
                    known_face_ids := known_face_ids sys @ [user_id]\<rparr>)
           | (Inr False, dbm') \<Rightarrow> (Inr (False, ''Failed to register user''), sys\<lparr>db := dbm'\<rparr>)))"
proof -
  have pos: "user_id \<noteq> 0" if "add_user (db sys) name = (Inr (Some user_id), dbm)" for user_id dbm
    using add_user_positive [OF that] by simp
  show ?thesis
    by (auto simp: register_new_face_def face_locations_def face_encodings_def index_def
        dest: pos split: prod.splits sum.splits option.splits bool.splits)
qed

text \<open>
  The path of \<open>get_all_face_encodings\<close> that does fall back to the empty list:
  the connection exists and the query raises \<open>mysql.connector.Error\<close>.
\<close>

lemma load_query_error_gives_empty:
  assumes "connection (db sys) = Some srv" and "server_call srv = (True, srv')"
  shows "load_known_faces sys =
     (Inr (), sys\<lparr>db := (db sys)\<lparr>connection := Some srv'\<rparr>,
                  known_face_encodings := [], known_face_names := [], known_face_ids := []\<rparr>)"
  using assms by (simp add: load_known_faces_def get_all_face_encodings_def)

section \<open>Recognition\<close>



text \<open>
  C2: a face whose descriptor is farther than the tolerance 0.6 from every gallery
  entry is labelled "Unknown" with id \<open>None\<close>, and the loop body returns the state
  it was given, so no attendance row is written; this holds in every state, the
  empty gallery included.  A frame all of whose faces are far, and every frame
  when the gallery is empty, gives one "Unknown" per detected face and leaves the
  state as it was.  In a frame that also holds other faces, a far face gets
  "Unknown" and \<open>None\<close> at its position.
\<close>

theorem far_face_is_unknown:
  "((\<forall>g \<in> set (known_face_encodings sys). 6 / 10 < euclidean g e) \<longrightarrow>
      recognize_face sys e = (Inr (''Unknown'', None), sys))
   \<and> ((\<forall>e \<in> set (map snd frame). \<forall>g \<in> set (known_face_encodings sys). 6 / 10 < euclidean g e) \<longrightarrow>
      recognize_faces sys frame =
        (Inr (face_locations frame, replicate (length frame) ''Unknown'',
              replicate (length frame) None), sys))
   \<and> (known_face_encodings sys = [] \<longrightarrow>
      recognize_faces sys frame =
        (Inr (face_locations frame, replicate (length frame) ''Unknown'',
              replicate (length frame) None), sys))
   \<and> (parallel_lists sys \<and> has_connection sys \<and> k < length frame \<and>
       (\<forall>g \<in> set (known_face_encodings sys). 6 / 10 < euclidean g (snd (frame ! k))) \<longrightarrow>
      (\<exists>names ids sys'.
         recognize_faces sys frame = (Inr (face_locations frame, names, ids), sys')
       \<and> names ! k = ''Unknown'' \<and> ids ! k = None))"
proof -
  have frame_far: "recognize_faces sys frame =
        (Inr (face_locations frame, replicate (length frame) ''Unknown'',
              replicate (length frame) None), sys)"
    if "\<forall>e \<in> set (map snd frame). \<forall>g \<in> set (known_face_encodings sys). 6 / 10 < euclidean g e"
    using recognize_loop_far [OF that, of "[]" "[]"]
    by (simp add: recognize_faces_def face_encodings_all Let_def)
  have mixed: "\<exists>names ids sys'.
         recognize_faces sys frame = (Inr (face_locations frame, names, ids), sys')
       \<and> names ! k = ''Unknown'' \<and> ids ! k = None"
    if "parallel_lists sys \<and> has_connection sys \<and> k < length frame \<and>
       (\<forall>g \<in> set (known_face_encodings sys). 6 / 10 < euclidean g (snd (frame ! k)))"
  proof -
    from that have "fst (recognize_face sys (snd (frame ! k))) = Inr (''Unknown'', None)"
      by (simp add: recognize_face_far)
    with that show ?thesis
      using recognize_faces_nth [of sys k frame "''Unknown''" None] by blast
  qed
  have empty: "recognize_faces sys frame =
        (Inr (face_locations frame, replicate (length frame) ''Unknown'',
              replicate (length frame) None), sys)"
    if "known_face_encodings sys = []"
    using that by (intro frame_far) simp
  show ?thesis
    using frame_far mixed empty recognize_face_far [of sys e] by blast
qed

text \<open>
  Witness for C2: a one-entry gallery with faces at distances 2 and 3, and the
  empty gallery with a frame of two faces.
\<close>

theorem far_face_is_unknown_witness:
  "recognize_face
     \<lparr>db = \<lparr>connection = Some \<lparr>users = [(1, ''A'')], face_encodings_tbl = [(1, [0])],
                                attendance = [], assigned = 1, faults = []\<rparr>\<rparr>,
       known_face_encodings = [[0]], known_face_names = [''A''], known_face_ids = [1]\<rparr> [2]
   = (Inr (''Unknown'', None),
     \<lparr>db = \<lparr>connection = Some \<lparr>users = [(1, ''A'')], face_encodings_tbl = [(1, [0])],
                                attendance = [], assigned = 1, faults = []\<rparr>\<rparr>,
       known_face_encodings = [[0]], known_face_names = [''A''], known_face_ids = [1]\<rparr>)
   \<and> recognize_faces
     \<lparr>db = \<lparr>connection = Some \<lparr>users = [(1, ''A'')], face_encodings_tbl = [(1, [0])],
                                attendance = [], assigned = 1, faults = []\<rparr>\<rparr>,
       known_face_encodings = [[0]], known_face_names = [''A''], known_face_ids = [1]\<rparr>
     [((0, 1, 1, 0), [2]), ((0, 3, 1, 2), [3])]
   = (Inr ([(0, 1, 1, 0), (0, 3, 1, 2)], [''Unknown'', ''Unknown''], [None, None]),
     \<lparr>db = \<lparr>connection = Some \<lparr>users = [(1, ''A'')], face_encodings_tbl = [(1, [0])],
                                attendance = [], assigned = 1, faults = []\<rparr>\<rparr>,
       known_face_encodings = [[0]], known_face_names = [''A''], known_face_ids = [1]\<rparr>)
   \<and> recognize_faces
     \<lparr>db = \<lparr>connection = Some \<lparr>users = [], face_encodings_tbl = [],
                                attendance = [], assigned = 0, faults = []\<rparr>\<rparr>,
       known_face_encodings = [], known_face_names = [], known_face_ids = []\<rparr>
     [((0, 1, 1, 0), [2]), ((0, 3, 1, 2), [3])]
   = (Inr ([(0, 1, 1, 0), (0, 3, 1, 2)], [''Unknown'', ''Unknown''], [None, None]),
     \<lparr>db = \<lparr>connection = Some \<lparr>users = [], face_encodings_tbl = [],
                                attendance = [], assigned = 0, faults = []\<rparr>\<rparr>,
       known_face_encodings = [], known_face_names = [], known_face_ids = []\<rparr>)"
  using far_face_is_unknown [where
     sys = "\<lparr>db = \<lparr>connection = Some \<lparr>users = [(1, ''A'')], face_encodings_tbl = [(1, [0])],
                                attendance = [], assigned = 1, faults = []\<rparr>\<rparr>,
       known_face_encodings = [[0]], known_face_names = [''A''], known_face_ids = [1]\<rparr>"
     and e = "[2]" and frame = "[((0, 1, 1, 0), [2]), ((0, 3, 1, 2), [3])]" and k = 0]
    far_face_is_unknown [where
     sys = "\<lparr>db = \<lparr>connection = Some \<lparr>users = [], face_encodings_tbl = [],
                                attendance = [], assigned = 0, faults = []\<rparr>\<rparr>,
       known_face_encodings = [], known_face_names = [], known_face_ids = []\<rparr>"
     and e = "[2]" and frame = "[((0, 1, 1, 0), [2]), ((0, 3, 1, 2), [3])]" and k = 0]
  by (simp add: euclidean_single face_locations_def numeral_2_eq_2)

section \<open>Enrollment\<close>

text \<open>
  C3: when the extractor finds exactly one face and both inserts succeed
  (\<open>add_user\<close> returns the id the store assigned, \<open>add_face_encoding\<close> returns
  \<open>True\<close>), \<open>register_new_face\<close> returns success, each of the three gallery lists
  grows by exactly one element, the new entry holds the extractor's descriptor, the
  given name and the id assigned by the store, and the store holds the identity
  row and the descriptor row for that id.
\<close>

theorem register_single_face_persisted:
  assumes "face_image = [(loc, enc)]"
    and "add_user (db sys) name = (Inr (Some user_id), dbm)"
    and "add_face_encoding dbm user_id enc = (Inr True, dbm')"
  shows "register_new_face sys name face_image =
           (Inr (True, ''User '' @ name @ '' registered successfully''),
            sys\<lparr>db := dbm',
                known_face_encodings := known_face_encodings sys @ [enc],
                known_face_names := known_face_names sys @ [name],
                known_face_ids := known_face_ids sys @ [user_id]\<rparr>)
       \<and> length (known_face_encodings (snd (register_new_face sys name face_image))) =
           length (known_face_encodings sys) + 1
       \<and> length (known_face_names (snd (register_new_face sys name face_image))) =
           length (known_face_names sys) + 1
       \<and> length (known_face_ids (snd (register_new_face sys name face_image))) =
           length (known_face_ids sys) + 1
       \<and> (\<exists>srv'. connection dbm' = Some srv' \<and> (user_id, name) \<in> set (users srv')
                 \<and> (user_id, enc) \<in> set (face_encodings_tbl srv'))"
proof -
  have reg: "register_new_face sys name face_image =
           (Inr (True, ''User '' @ name @ '' registered successfully''),
            sys\<lparr>db := dbm',
                known_face_encodings := known_face_encodings sys @ [enc],
                known_face_names := known_face_names sys @ [name],
                known_face_ids := known_face_ids sys @ [user_id]\<rparr>)"
    using assms by (simp add: register_one_face_cases)
  from add_user_row [OF assms(2)] obtain srv
    where srv: "connection dbm = Some srv" "(user_id, name) \<in> set (users srv)" by blast
  from add_face_encoding_rows [OF assms(3) srv(1)] srv(2)
  have rows: "\<exists>srv'. connection dbm' = Some srv' \<and> (user_id, name) \<in> set (users srv')
                 \<and> (user_id, enc) \<in> set (face_encodings_tbl srv')"
    by blast
  show ?thesis
    using rows by (simp add: reg)
qed

text \<open>Witness for C3: enrolling Bob into an empty gallery on a store that answers.\<close>

theorem register_single_face_persisted_witness:
  "register_new_face
     \<lparr>db = \<lparr>connection = Some \<lparr>users = [], face_encodings_tbl = [],
                                attendance = [], assigned = 0, faults = []\<rparr>\<rparr>,
       known_face_encodings = [], known_face_names = [], known_face_ids = []\<rparr>
     ''Bob'' [((0, 1, 1, 0), [1 / 2, 1 / 4])]
   = (Inr (True, ''User Bob registered successfully''),
     \<lparr>db = \<lparr>connection = Some \<lparr>users = [(1, ''Bob'')],
                                face_encodings_tbl = [(1, [1 / 2, 1 / 4])],
                                attendance = [], assigned = 1, faults = []\<rparr>\<rparr>,
       known_face_encodings = [[1 / 2, 1 / 4]], known_face_names = [''Bob''],
       known_face_ids = [1]\<rparr>)"
  using register_single_face_persisted [where
     sys = "\<lparr>db = \<lparr>connection = Some \<lparr>users = [], face_encodings_tbl = [],
                                attendance = [], assigned = 0, faults = []\<rparr>\<rparr>,
       known_face_encodings = [], known_face_names = [], known_face_ids = []\<rparr>"
     and name = "''Bob''" and face_image = "[((0, 1, 1, 0), [1 / 2, 1 / 4])]"
     and loc = "(0, 1, 1, 0)" and enc = "[1 / 2, 1 / 4]" and user_id = 1
     and dbm = "\<lparr>connection = Some \<lparr>users = [(1, ''Bob'')], face_encodings_tbl = [],
                                attendance = [], assigned = 1, faults = []\<rparr>\<rparr>"
     and dbm' = "\<lparr>connection = Some \<lparr>users = [(1, ''Bob'')],
                                face_encodings_tbl = [(1, [1 / 2, 1 / 4])],
                                attendance = [], assigned = 1, faults = []\<rparr>\<rparr>"]
  by (simp add: add_user_def add_face_encoding_def server_call_def)

text \<open>
  C4: for an image with one face, when the insert of the identity row fails
  (\<open>add_user\<close> returns \<open>None\<close>), or it succeeds and the insert of the descriptor
  row fails (\<open>add_face_encoding\<close> returns \<open>False\<close>), \<open>register_new_face\<close> returns
  the failure "Failed to register user" and only the \<open>db\<close> field of the state
  changes, so the gallery is as it was.  Store-first ordering: the gallery is
  either unchanged or it was extended after both inserts had succeeded.
\<close>

theorem register_persistence_failure:
  assumes "face_image = [(loc, enc)]"
  shows "(fst (add_user (db sys) name) = Inr None \<longrightarrow>
            register_new_face sys name face_image =
              (Inr (False, ''Failed to register user''), sys\<lparr>db := snd (add_user (db sys) name)\<rparr>))
       \<and> (\<forall>user_id dbm.
            add_user (db sys) name = (Inr (Some user_id), dbm) \<and>
            fst (add_face_encoding dbm user_id enc) = Inr False \<longrightarrow>
            register_new_face sys name face_image =
              (Inr (False, ''Failed to register user''),
               sys\<lparr>db := snd (add_face_encoding dbm user_id enc)\<rparr>))
       \<and> (gallery (snd (register_new_face sys name face_image)) = gallery sys \<or>
          (\<exists>user_id dbm dbm'.
             add_user (db sys) name = (Inr (Some user_id), dbm) \<and>
             add_face_encoding dbm user_id enc = (Inr True, dbm') \<and>
             fst (register_new_face sys name face_image) =
               Inr (True, ''User '' @ name @ '' registered successfully'') \<and>
             gallery (snd (register_new_face sys name face_image)) =
               (known_face_encodings sys @ [enc], known_face_names sys @ [name],
                known_face_ids sys @ [user_id])))"
proof (intro conjI allI impI)
  assume "fst (add_user (db sys) name) = Inr None"
  then show "register_new_face sys name face_image =
      (Inr (False, ''Failed to register user''), sys\<lparr>db := snd (add_user (db sys) name)\<rparr>)"
    using assms by (cases "add_user (db sys) name") (simp add: register_one_face_cases)
next
  fix user_id dbm
  assume "add_user (db sys) name = (Inr (Some user_id), dbm) \<and>
            fst (add_face_encoding dbm user_id enc) = Inr False"
  then show "register_new_face sys name face_image =
      (Inr (False, ''Failed to register user''),
       sys\<lparr>db := snd (add_face_encoding dbm user_id enc)\<rparr>)"
    using assms
    by (cases "add_face_encoding dbm user_id enc") (auto simp: register_one_face_cases)
next
  show "gallery (snd (register_new_face sys name face_image)) = gallery sys \<or>
          (\<exists>user_id dbm dbm'.
             add_user (db sys) name = (Inr (Some user_id), dbm) \<and>
             add_face_encoding dbm user_id enc = (Inr True, dbm') \<and>
             fst (register_new_face sys name face_image) =
               Inr (True, ''User '' @ name @ '' registered successfully'') \<and>
             gallery (snd (register_new_face sys name face_image)) =
               (known_face_encodings sys @ [enc], known_face_names sys @ [name],
                known_face_ids sys @ [user_id]))"
    using assms
    by (auto simp: register_one_face_cases gallery_def
        split: prod.splits sum.splits option.splits bool.splits)
qed

text \<open>
  Witness for C4: the store raises on the first insert; and the store accepts the
  first insert and raises on the second, which leaves the identity row of Bob
  behind and the gallery unchanged.
\<close>

theorem register_persistence_failure_witness:
  "register_new_face
     \<lparr>db = \<lparr>connection = Some \<lparr>users = [(1, ''A'')], face_encodings_tbl = [(1, [0])],
                                attendance = [], assigned = 1, faults = [True]\<rparr>\<rparr>,
       known_face_encodings = [[0]], known_face_names = [''A''], known_face_ids = [1]\<rparr>
     ''Bob'' [((0, 1, 1, 0), [1 / 2])]
   = (Inr (False, ''Failed to register user''),
     \<lparr>db = \<lparr>connection = Some \<lparr>users = [(1, ''A'')], face_encodings_tbl = [(1, [0])],
                                attendance = [], assigned = 1, faults = []\<rparr>\<rparr>,
       known_face_encodings = [[0]], known_face_names = [''A''], known_face_ids = [1]\<rparr>)
   \<and> register_new_face
     \<lparr>db = \<lparr>connection = Some \<lparr>users = [(1, ''A'')], face_encodings_tbl = [(1, [0])],
                                attendance = [], assigned = 1, faults = [False, True]\<rparr>\<rparr>,
       known_face_encodings = [[0]], known_face_names = [''A''], known_face_ids = [1]\<rparr>
     ''Bob'' [((0, 1, 1, 0), [1 / 2])]
   = (Inr (False, ''Failed to register user''),
     \<lparr>db = \<lparr>connection = Some \<lparr>users = [(1, ''A''), (2, ''Bob'')],
                                face_encodings_tbl = [(1, [0])],
                                attendance = [], assigned = 2, faults = []\<rparr>\<rparr>,
       known_face_encodings = [[0]], known_face_names = [''A''], known_face_ids = [1]\<rparr>)"
  using register_persistence_failure [where
     sys = "\<lparr>db = \<lparr>connection = Some \<lparr>users = [(1, ''A'')], face_encodings_tbl = [(1, [0])],
                                attendance = [], assigned = 1, faults = [True]\<rparr>\<rparr>,
       known_face_encodings = [[0]], known_face_names = [''A''], known_face_ids = [1]\<rparr>"
     and name = "''Bob''" and face_image = "[((0, 1, 1, 0), [1 / 2])]"
     and loc = "(0, 1, 1, 0)" and enc = "[1 / 2]"]
    register_persistence_failure [where
     sys = "\<lparr>db = \<lparr>connection = Some \<lparr>users = [(1, ''A'')], face_encodings_tbl = [(1, [0])],
                                attendance = [], assigned = 1, faults = [False, True]\<rparr>\<rparr>,
       known_face_encodings = [[0]], known_face_names = [''A''], known_face_ids = [1]\<rparr>"
     and name = "''Bob''" and face_image = "[((0, 1, 1, 0), [1 / 2])]"
     and loc = "(0, 1, 1, 0)" and enc = "[1 / 2]"]
  by (simp add: add_user_def add_face_encoding_def server_call_def)

text \<open>
  C5: for an image in which no face is detected, \<open>register_new_face\<close> returns
  the failure "No face detected in the image" and the whole state, gallery and
  store, is returned as it was.
\<close>

theorem register_no_face:
  "register_new_face sys name [] = (Inr (False, ''No face detected in the image''), sys)"
  by (simp add: register_new_face_def face_locations_def)

text \<open>
  C6: for an image in which two or more faces are detected, \<open>register_new_face\<close>
  returns the failure "Multiple faces detected. Please provide an image with only
  one face" and the whole state, gallery and store, is returned as it was.
\<close>

theorem register_multiple_faces:
  "2 \<le> length face_image \<Longrightarrow>
     register_new_face sys name face_image =
       (Inr (False, ''Multiple faces detected. Please provide an image with only one face''), sys)"
  by (auto simp: register_new_face_def face_locations_def Let_def)

text \<open>Witness for C6: an image with two faces.\<close>

theorem register_multiple_faces_witness:
  "register_new_face
     \<lparr>db = \<lparr>connection = Some \<lparr>users = [], face_encodings_tbl = [],
                                attendance = [], assigned = 0, faults = []\<rparr>\<rparr>,
       known_face_encodings = [], known_face_names = [], known_face_ids = []\<rparr>
     ''Bob'' [((0, 1, 1, 0), [1 / 2]), ((0, 3, 1, 2), [1 / 4])]
   = (Inr (False, ''Multiple faces detected. Please provide an image with only one face''),
     \<lparr>db = \<lparr>connection = Some \<lparr>users = [], face_encodings_tbl = [],
                                attendance = [], assigned = 0, faults = []\<rparr>\<rparr>,
       known_face_encodings = [], known_face_names = [], known_face_ids = []\<rparr>)"
  using register_multiple_faces [of "[((0, 1, 1, 0), [1 / 2]), ((0, 3, 1, 2), [1 / 4])]"]
  by simp

section \<open>Start-up with an unreachable store\<close>

text \<open>
  C7 (the code at the failing input): the store holds one enrolled face and
  refuses the connection.  \<open>connect\<close> swallows the error and leaves
  \<open>connection = None\<close>; \<open>get_all_face_encodings\<close> then dereferences it, and the
  \<open>AttributeError\<close> escapes from \<open>load_known_faces\<close> and from the constructor:
  the load raises instead of completing with an empty gallery.
\<close>

theorem unreachable_store_raises:
  "FaceRecognitionSystem_init
     \<lparr>users = [(1, ''A'')], face_encodings_tbl = [(1, [0])],
      attendance = [], assigned = 1, faults = [True]\<rparr>
   = Inl AttributeError
   \<and> load_known_faces
     \<lparr>db = DatabaseManager_init
             \<lparr>users = [(1, ''A'')], face_encodings_tbl = [(1, [0])],
              attendance = [], assigned = 1, faults = [True]\<rparr>,
       known_face_encodings = [], known_face_names = [], known_face_ids = []\<rparr>
   = (Inl AttributeError,
     \<lparr>db = \<lparr>connection = None\<rparr>,
       known_face_encodings = [], known_face_names = [], known_face_ids = []\<rparr>)"
  by (simp add: FaceRecognitionSystem_init_def DatabaseManager_init_def connect_def
      load_known_faces_def get_all_face_encodings_def server_call_def)

section \<open>The tolerance\<close>

text \<open>
  C8 (the code at the failing input): with the slider at 0.3, a face at distance
  0.5 from the only gallery entry is still labelled with that entry's name and
  id, and an attendance row is written: the comparison uses the constant 0.6 of
  \<open>recognize_faces\<close>, not the value supplied by the caller.
\<close>

theorem slider_value_not_used:
  "fst (home_page_frame (3 / 10)
     \<lparr>db = \<lparr>connection = Some \<lparr>users = [(1, ''A'')], face_encodings_tbl = [(1, [0])],
                                attendance = [], assigned = 1, faults = []\<rparr>\<rparr>,
       known_face_encodings = [[0]], known_face_names = [''A''], known_face_ids = [1]\<rparr>
     [((0, 1, 1, 0), [1 / 2])])
   = Inr ([(0, 1, 1, 0)], [''A''], [Some 1])
   \<and> euclidean [0] [1 / 2] = 1 / 2
   \<and> attendance_log (snd (home_page_frame (3 / 10)
     \<lparr>db = \<lparr>connection = Some \<lparr>users = [(1, ''A'')], face_encodings_tbl = [(1, [0])],
                                attendance = [], assigned = 1, faults = []\<rparr>\<rparr>,
       known_face_encodings = [[0]], known_face_names = [''A''], known_face_ids = [1]\<rparr>
     [((0, 1, 1, 0), [1 / 2])])) = [1]"
  by (simp add: home_page_frame_def recognize_faces_def face_locations_def face_encodings_def
      recognize_face_def compare_faces_def face_distance_def euclidean_single index_def
      record_attendance_def server_call_def attendance_log_def Let_def)

section \<open>Invariants of the gallery lists and of the output\<close>

text \<open>
  C9: the three gallery lists have equal length after construction, and
  \<open>load_known_faces\<close>, \<open>register_new_face\<close> and \<open>recognize_faces\<close> keep them
  so; hence the loop body never raises \<open>IndexError\<close>, and for a non-empty gallery
  the \<open>argmin\<close> index over the distances is in bounds for each of the three lists.
\<close>

theorem gallery_lists_parallel:
  "(FaceRecognitionSystem_init srv = Inr sys0 \<longrightarrow> parallel_lists sys0)
   \<and> (parallel_lists sys \<longrightarrow>
        parallel_lists (snd (load_known_faces sys))
      \<and> parallel_lists (snd (register_new_face sys name face_image))
      \<and> parallel_lists (snd (recognize_faces sys frame))
      \<and> fst (recognize_face sys e) \<noteq> Inl IndexError
      \<and> (known_face_encodings sys \<noteq> [] \<longrightarrow>
           argmin (face_distance (known_face_encodings sys) e) < length (known_face_encodings sys)
         \<and> argmin (face_distance (known_face_encodings sys) e) < length (known_face_names sys)
         \<and> argmin (face_distance (known_face_encodings sys) e) < length (known_face_ids sys)))"
proof (intro conjI impI)
  assume "FaceRecognitionSystem_init srv = Inr sys0"
  then show "parallel_lists sys0" by (rule init_parallel)
next
  assume p: "parallel_lists sys"
  then show "parallel_lists (snd (load_known_faces sys))"
    by (simp add: load_known_faces_parallel)
  from p show "parallel_lists (snd (register_new_face sys name face_image))"
    by (rule register_parallel)
  from p show "parallel_lists (snd (recognize_faces sys frame))"
    by (simp add: parallel_lists_gallery [OF recognize_faces_gallery])
  from p show "fst (recognize_face sys e) \<noteq> Inl IndexError"
    by (rule recognize_face_no_IndexError)
  assume "known_face_encodings sys \<noteq> []"
  then have i: "argmin (face_distance (known_face_encodings sys) e) < length (known_face_encodings sys)"
    by (rule argmin_face_distance_less)
  then show "argmin (face_distance (known_face_encodings sys) e) < length (known_face_encodings sys)" .
  from i p show "argmin (face_distance (known_face_encodings sys) e) < length (known_face_names sys)"
    by (simp add: parallel_lists_def)
  from i p show "argmin (face_distance (known_face_encodings sys) e) < length (known_face_ids sys)"
    by (simp add: parallel_lists_def)
qed

text \<open>
  Witness for C9: construction on a store with one enrolled face, then the
  enrollment of Bob, and the \<open>argmin\<close> index for a probe.
\<close>

theorem gallery_lists_parallel_witness:
  "FaceRecognitionSystem_init
     \<lparr>users = [(1, ''A'')], face_encodings_tbl = [(1, [0])],
      attendance = [], assigned = 1, faults = []\<rparr>
   = Inr \<lparr>db = \<lparr>connection = Some \<lparr>users = [(1, ''A'')], face_encodings_tbl = [(1, [0])],
                                   attendance = [], assigned = 1, faults = []\<rparr>\<rparr>,
          known_face_encodings = [[0]], known_face_names = [''A''], known_face_ids = [1]\<rparr>
   \<and> parallel_lists
     \<lparr>db = \<lparr>connection = Some \<lparr>users = [(1, ''A'')], face_encodings_tbl = [(1, [0])],
                                attendance = [], assigned = 1, faults = []\<rparr>\<rparr>,
       known_face_encodings = [[0]], known_face_names = [''A''], known_face_ids = [1]\<rparr>
   \<and> parallel_lists (snd (register_new_face
     \<lparr>db = \<lparr>connection = Some \<lparr>users = [(1, ''A'')], face_encodings_tbl = [(1, [0])],
                                attendance = [], assigned = 1, faults = []\<rparr>\<rparr>,
       known_face_encodings = [[0]], known_face_names = [''A''], known_face_ids = [1]\<rparr>
     ''Bob'' [((0, 1, 1, 0), [1 / 2])]))
   \<and> argmin (face_distance [[0]] [1 / 2]) < length [1 :: nat]"
  using gallery_lists_parallel [where
     srv = "\<lparr>users = [(1, ''A'')], face_encodings_tbl = [(1, [0])],
            attendance = [], assigned = 1, faults = []\<rparr>"
     and ?sys0.0 = "\<lparr>db = \<lparr>connection = Some \<lparr>users = [(1, ''A'')], face_encodings_tbl = [(1, [0])],
                                   attendance = [], assigned = 1, faults = []\<rparr>\<rparr>,
          known_face_encodings = [[0]], known_face_names = [''A''], known_face_ids = [1]\<rparr>"
     and sys = "\<lparr>db = \<lparr>connection = Some \<lparr>users = [(1, ''A'')], face_encodings_tbl = [(1, [0])],
                                   attendance = [], assigned = 1, faults = []\<rparr>\<rparr>,
          known_face_encodings = [[0]], known_face_names = [''A''], known_face_ids = [1]\<rparr>"
     and name = "''Bob''" and face_image = "[((0, 1, 1, 0), [1 / 2])]" and e = "[1 / 2]"]
  by (simp add: FaceRecognitionSystem_init_def DatabaseManager_init_def connect_def
      load_known_faces_def get_all_face_encodings_def select_faces_def server_call_def)

text \<open>
  C10 as stated fails: a person enrolled under the name "Unknown" is returned
  with the name "Unknown" and the id 1, so the name is "Unknown" while the id is
  not \<open>None\<close>.  The state is the one reached by constructing the system on an
  empty store and enrolling that person.
\<close>

theorem recognize_unknown_name_counterexample:
  "fst (recognize_faces
      (snd (register_new_face
         (projr (FaceRecognitionSystem_init
            \<lparr>users = [], face_encodings_tbl = [], attendance = [], assigned = 0, faults = []\<rparr>))
         ''Unknown'' [((0, 1, 1, 0), [0])]))
      [((0, 1, 1, 0), [0])])
   = Inr ([(0, 1, 1, 0)], [''Unknown''], [Some 1])"
  by (simp add: FaceRecognitionSystem_init_def DatabaseManager_init_def connect_def
      load_known_faces_def get_all_face_encodings_def select_faces_def server_call_def
      register_new_face_def face_locations_def face_encodings_def index_def add_user_def
      add_face_encoding_def recognize_faces_def recognize_face_def compare_faces_def
      face_distance_def euclidean_def record_attendance_def Let_def)

text \<open>
  C10, amended: in a constructed system, \<open>recognize_faces\<close> returns name and id
  lists with one element per detected face; an id of \<open>None\<close> comes with the name
  "Unknown", an id other than \<open>None\<close> comes with the name of the same gallery entry,
  and the name "Unknown" comes with the id \<open>None\<close> provided that no enrolled name is
  "Unknown".
\<close>

theorem recognize_output_shape:
  assumes "parallel_lists sys" and "has_connection sys"
  shows "\<exists>names ids sys'.
           recognize_faces sys frame = (Inr (face_locations frame, names, ids), sys')
         \<and> length names = length frame \<and> length ids = length frame
         \<and> (\<forall>i < length frame.
               (ids ! i = None \<longrightarrow> names ! i = ''Unknown'')
             \<and> (\<forall>u. ids ! i = Some u \<longrightarrow>
                   (\<exists>j < length (known_face_encodings sys).
                       names ! i = known_face_names sys ! j \<and> u = known_face_ids sys ! j))
             \<and> (''Unknown'' \<notin> set (known_face_names sys) \<longrightarrow>
                   (ids ! i = None \<longleftrightarrow> names ! i = ''Unknown'')))"
proof -
  have g: "gallery sys = (known_face_encodings sys, known_face_names sys, known_face_ids sys)"
    by (simp add: gallery_def)
  from recognize_loop_labels [OF assms g, of "map snd frame" "[]" "[]"]
  obtain ns us sys' where
    loop: "recognize_loop sys (map snd frame) [] [] = (Inr (ns, us), sys')"
    and len: "length ns = length frame"
    and all: "list_all2 (\<lambda>name uid. (uid = None \<and> name = ''Unknown'') \<or>
               (\<exists>j < length (known_face_encodings sys).
                   name = known_face_names sys ! j \<and> uid = Some (known_face_ids sys ! j))) ns us"
    by auto
  from all have len2: "length us = length ns" by (simp add: list_all2_lengthD)
  have res: "recognize_faces sys frame = (Inr (face_locations frame, ns, us), sys')"
    using loop by (simp add: recognize_faces_def face_encodings_all Let_def)
  have each: "(us ! i = None \<longrightarrow> ns ! i = ''Unknown'')
             \<and> (\<forall>u. us ! i = Some u \<longrightarrow>
                   (\<exists>j < length (known_face_encodings sys).
                       ns ! i = known_face_names sys ! j \<and> u = known_face_ids sys ! j))
             \<and> (''Unknown'' \<notin> set (known_face_names sys) \<longrightarrow>
                   (us ! i = None \<longleftrightarrow> ns ! i = ''Unknown''))"
    if "i < length frame" for i
  proof -
    from that len have i: "i < length ns" by simp
    from list_all2_nthD [OF all i]
    have lab: "(us ! i = None \<and> ns ! i = ''Unknown'') \<or>
               (\<exists>j < length (known_face_encodings sys).
                   ns ! i = known_face_names sys ! j \<and> us ! i = Some (known_face_ids sys ! j))" .
    have inset: "known_face_names sys ! j \<in> set (known_face_names sys)"
      if "j < length (known_face_encodings sys)" for j
      using that assms(1) by (simp add: parallel_lists_def)
    from lab show ?thesis
    proof
      assume "us ! i = None \<and> ns ! i = ''Unknown''"
      then show ?thesis by simp
    next
      assume "\<exists>j < length (known_face_encodings sys).
                   ns ! i = known_face_names sys ! j \<and> us ! i = Some (known_face_ids sys ! j)"
      then obtain j where j: "j < length (known_face_encodings sys)"
        "ns ! i = known_face_names sys ! j" "us ! i = Some (known_face_ids sys ! j)" by blast
      from inset [OF j(1)] j(2) have "ns ! i \<in> set (known_face_names sys)" by simp
      with j show ?thesis by auto
    qed
  qed
  from each have "\<forall>i < length frame. (us ! i = None \<longrightarrow> ns ! i = ''Unknown'')
             \<and> (\<forall>u. us ! i = Some u \<longrightarrow>
                   (\<exists>j < length (known_face_encodings sys).
                       ns ! i = known_face_names sys ! j \<and> u = known_face_ids sys ! j))
             \<and> (''Unknown'' \<notin> set (known_face_names sys) \<longrightarrow>
                   (us ! i = None \<longleftrightarrow> ns ! i = ''Unknown''))"
    by blast
  with res len len2 show ?thesis
    by (intro exI [of _ ns] exI [of _ us] exI [of _ sys']) simp
qed

text \<open>Witness for the amended C10: a frame with one known and one unknown face.\<close>

theorem recognize_output_shape_witness:
  "parallel_lists
     \<lparr>db = \<lparr>connection = Some \<lparr>users = [(1, ''A'')], face_encodings_tbl = [(1, [0])],
                                attendance = [], assigned = 1, faults = []\<rparr>\<rparr>,
       known_face_encodings = [[0]], known_face_names = [''A''], known_face_ids = [1]\<rparr>
   \<and> has_connection
     \<lparr>db = \<lparr>connection = Some \<lparr>users = [(1, ''A'')], face_encodings_tbl = [(1, [0])],
                                attendance = [], assigned = 1, faults = []\<rparr>\<rparr>,
       known_face_encodings = [[0]], known_face_names = [''A''], known_face_ids = [1]\<rparr>
   \<and> (\<exists>names ids sys'.
        recognize_faces
          \<lparr>db = \<lparr>connection = Some \<lparr>users = [(1, ''A'')], face_encodings_tbl = [(1, [0])],
                                     attendance = [], assigned = 1, faults = []\<rparr>\<rparr>,
            known_face_encodings = [[0]], known_face_names = [''A''], known_face_ids = [1]\<rparr>
          [((0, 1, 1, 0), [0]), ((0, 3, 1, 2), [2])]
        = (Inr ([(0, 1, 1, 0), (0, 3, 1, 2)], names, ids), sys')
      \<and> length names = 2 \<and> length ids = 2)"
proof -
  let ?S = "\<lparr>db = \<lparr>connection = Some \<lparr>users = [(1, ''A'')], face_encodings_tbl = [(1, [0])],
                                attendance = [], assigned = 1, faults = []\<rparr>\<rparr>,
       known_face_encodings = [[0]], known_face_names = [''A''], known_face_ids = [1 :: nat]\<rparr>"
  have p: "parallel_lists ?S" by (simp add: parallel_lists_def)
  have c: "has_connection ?S" by (simp add: has_connection_def)
  from recognize_output_shape [OF p c, of "[((0, 1, 1, 0), [0]), ((0, 3, 1, 2), [2])]"]
  obtain names ids sys' where
    "recognize_faces ?S [((0, 1, 1, 0), [0]), ((0, 3, 1, 2), [2])] =
       (Inr (face_locations [((0, 1, 1, 0), [0]), ((0, 3, 1, 2), [2])], names, ids), sys')"
    "length names = length [((0 :: nat, 1 :: nat, 1 :: nat, 0 :: nat), [0 :: real]), ((0, 3, 1, 2), [2])]"
    "length ids = length [((0 :: nat, 1 :: nat, 1 :: nat, 0 :: nat), [0 :: real]), ((0, 3, 1, 2), [2])]"
    by blast
  then have "\<exists>names ids sys'.
        recognize_faces ?S [((0, 1, 1, 0), [0]), ((0, 3, 1, 2), [2])]
        = (Inr ([(0, 1, 1, 0), (0, 3, 1, 2)], names, ids), sys')
      \<and> length names = 2 \<and> length ids = 2"
    by (simp add: face_locations_def)
  with p c show ?thesis by simp
qed

end
